theory Spec2Isabelle
  imports Main
begin

section \<open>Data model\<close>

text \<open>
  The controller \<^verbatim>\<open>backend/controllers/user.controller.js\<close> exports four request
  handlers.  Each one is an \<^verbatim>\<open>async\<close> function whose whole body sits in a
  \<^verbatim>\<open>try { ... } catch (error) { ... }\<close> block.  The handlers talk to two document
  collections (users, blacklisted tokens) through a model and a service layer, and to
  the hashing and token-signing primitives through methods of the user model.

  A user document as the controller sees it.  The password field is optional: a query
  result carries it only when it has been selected (line 65 of the controller selects it
  with \<^verbatim>\<open>select("+password")\<close>).
\<close>

record user =
  u_id :: nat
  u_fullname :: string
  u_email :: string
  u_password :: "string option"

text \<open>A user as persisted in the collection: the password is always there, hashed.\<close>

record user_record =
  r_id :: nat
  r_fullname :: string
  r_email :: string
  r_password :: string

record blacklisted_token =
  bt_token :: string
  bt_createdAt :: nat

text \<open>
  Every call that leaves the controller (validator, model, service, document methods).
  The handlers append each call to a log before it runs, so that a theorem can say which
  calls a request made and in which order.
\<close>

datatype call =
    ValidationResult
  | UserExists string
  | HashPassword string
  | CreateUser string string string
  | GenerateAuthToken nat
  | FindOneSelectPassword string
  | ComparePassword nat string
  | BlacklistExists string
  | FindById nat
  | BlacklistCreate string

datatype exn = TypeError | Thrown call

record state =
  users :: "user_record list"
  blacklist :: "blacklisted_token list"
  now :: nat
  calls :: "call list"

text \<open>
  What the controller does not define is a parameter: which of the outgoing calls
  throws, the static \<^verbatim>\<open>userModel.hashPassword(password)\<close>, and the document methods
  \<^verbatim>\<open>user.comparePassword(password)\<close> and \<^verbatim>\<open>user.generateAuthToken()\<close> (the token
  may depend on the time of issue).
\<close>

record env =
  throws :: "call \<Rightarrow> bool"
  hashPassword :: "string \<Rightarrow> string"
  comparePassword :: "user \<Rightarrow> string \<Rightarrow> bool"
  generateAuthToken :: "nat \<Rightarrow> user \<Rightarrow> string"

record body =
  b_fullname :: string
  b_email :: string
  b_password :: string

text \<open>
  The Express request, as far as the handlers read it: the errors the validation layer
  collected, the parsed body, the parsed cookies, the headers (lower-case names), and the
  user attached by the authentication middleware.  A part that the surrounding
  middleware did not set is \<open>None\<close> (\<^verbatim>\<open>undefined\<close> in the source); reading a property of
  it throws a \<^verbatim>\<open>TypeError\<close>.
\<close>

record request =
  req_validation :: "string list"
  req_body :: "body option"
  req_cookies :: "(string \<times> string) list option"
  req_headers :: "(string \<times> string) list"
  req_user :: "user option"

datatype payload =
    Errors "string list"
  | Message string
  | TokenUser string user
  | UserOnly user

record response =
  status :: nat
  json :: payload
  cleared :: "string list"

section \<open>Effects: state, exceptions, logged calls\<close>

type_synonym 'a io = "state \<Rightarrow> (exn + 'a) \<times> state"

definition ret :: "'a \<Rightarrow> 'a io" where
  "ret x s = (Inr x, s)"

definition throw :: "exn \<Rightarrow> 'a io" where
  "throw e s = (Inl e, s)"

definition bindIO :: "'a io \<Rightarrow> ('a \<Rightarrow> 'b io) \<Rightarrow> 'b io" where
  "bindIO m f s = (case m s of (Inl e, s') \<Rightarrow> (Inl e, s') | (Inr x, s') \<Rightarrow> f x s')"

text \<open>An outgoing call: it is logged, then it either throws or runs.\<close>

definition invoke :: "env \<Rightarrow> call \<Rightarrow> (state \<Rightarrow> 'a \<times> state) \<Rightarrow> 'a io" where
  "invoke env c op s =
     (let s1 = s\<lparr>calls := calls s @ [c]\<rparr>
      in if throws env c then (Inl (Thrown c), s1)
         else (case op s1 of (x, s2) \<Rightarrow> (Inr x, s2)))"

text \<open>Reading a property of a part of the request that may be \<^verbatim>\<open>undefined\<close>.\<close>

definition property_of :: "'a option \<Rightarrow> 'a io" where
  "property_of x = (case x of None \<Rightarrow> throw TypeError | Some v \<Rightarrow> ret v)"

definition respond :: "nat \<Rightarrow> payload \<Rightarrow> response" where
  "respond code p = \<lparr>status = code, json = p, cleared = []\<rparr>"

text \<open>
  The \<^verbatim>\<open>catch (error)\<close> block shared by the four handlers: log, then answer 500 with
  a fixed message.
\<close>

definition catch500 :: "response io \<Rightarrow> state \<Rightarrow> response \<times> state" where
  "catch500 m s =
     (case m s of
        (Inl e, s') \<Rightarrow> (respond 500 (Message ''Internal server error''), s')
      | (Inr r, s') \<Rightarrow> (r, s'))"

section \<open>The collections\<close>

text \<open>
  Modelled from the spec: \<^verbatim>\<open>models/user.model.js\<close>, \<^verbatim>\<open>services/user.service.js\<close> and
  \<^verbatim>\<open>models/blacklisted-token.model.js\<close> are not part of the sources.  The spec's data
  model has a user with fullname, unique email, hashed password and identifier, and a
  blacklisted token with the token string and a creation timestamp.
\<close>

definition with_password :: "user_record \<Rightarrow> user" where
  "with_password r =
     \<lparr>u_id = r_id r, u_fullname = r_fullname r, u_email = r_email r,
      u_password = Some (r_password r)\<rparr>"

definition without_password :: "user_record \<Rightarrow> user" where
  "without_password r =
     \<lparr>u_id = r_id r, u_fullname = r_fullname r, u_email = r_email r,
      u_password = None\<rparr>"

text \<open>Modelled from the spec: \<^verbatim>\<open>userModel.exists({ email })\<close>, an existence check.\<close>

definition userModel_exists :: "string \<Rightarrow> state \<Rightarrow> bool \<times> state" where
  "userModel_exists e s = (list_ex (\<lambda>r. r_email r = e) (users s), s)"

text \<open>
  Modelled from the spec: \<^verbatim>\<open>userModel.findOne({ email }).select("+password")\<close>, the
  first user with the email, password field included (the comment on line 65).
\<close>

definition userModel_findOne_select_password :: "string \<Rightarrow> state \<Rightarrow> user option \<times> state" where
  "userModel_findOne_select_password e s =
     (map_option with_password (find (\<lambda>r. r_email r = e) (users s)), s)"

text \<open>
  Modelled from the spec: \<^verbatim>\<open>userModel.findById(id)\<close>, a lookup by identifier; the
  password field is not selected.
\<close>

definition userModel_findById :: "nat \<Rightarrow> state \<Rightarrow> user option \<times> state" where
  "userModel_findById i s =
     (map_option without_password (find (\<lambda>r. r_id r = i) (users s)), s)"

definition fresh_id :: "user_record list \<Rightarrow> nat" where
  "fresh_id rs = Suc (fold max (map r_id rs) 0)"

text \<open>
  Modelled from the spec: \<^verbatim>\<open>userService.createUser({ fullname, email, password })\<close>
  persists the user (one insert) and returns the user object, in which no password
  field is exposed.
\<close>

definition userService_createUser ::
  "string \<Rightarrow> string \<Rightarrow> string \<Rightarrow> state \<Rightarrow> user \<times> state" where
  "userService_createUser fn e pw s =
     (let r = \<lparr>r_id = fresh_id (users s), r_fullname = fn, r_email = e, r_password = pw\<rparr>
      in (without_password r, s\<lparr>users := users s @ [r]\<rparr>))"

text \<open>Modelled from the spec: \<^verbatim>\<open>blacklistedTokenModel.exists({ token })\<close>.\<close>

definition blacklistedTokenModel_exists :: "string \<Rightarrow> state \<Rightarrow> bool \<times> state" where
  "blacklistedTokenModel_exists t s = (list_ex (\<lambda>b. bt_token b = t) (blacklist s), s)"

text \<open>
  Modelled from the spec: \<^verbatim>\<open>blacklistedTokenModel.create({ token })\<close> inserts the
  token with its creation timestamp.
\<close>

definition blacklistedTokenModel_create :: "string \<Rightarrow> state \<Rightarrow> unit \<times> state" where
  "blacklistedTokenModel_create t s =
     ((), s\<lparr>blacklist := blacklist s @ [\<lparr>bt_token = t, bt_createdAt = now s\<rparr>]\<rparr>)"

section \<open>JavaScript values in \<^verbatim>\<open>logoutUser\<close>\<close>

text \<open>
  \<^verbatim>\<open>str.split(" ")\<close>: the pieces between single space characters, empty pieces kept;
  the empty string splits into one empty piece.
\<close>

fun js_split :: "char \<Rightarrow> string \<Rightarrow> string list" where
  "js_split d [] = [[]]"
| "js_split d (c # cs) =
     (if c = d then [] # js_split d cs
      else (case js_split d cs of [] \<Rightarrow> [[c]] | p # ps \<Rightarrow> (c # p) # ps))"

text \<open>\<^verbatim>\<open>arr[i]\<close>: \<^verbatim>\<open>undefined\<close> past the end.\<close>

fun js_index :: "'a list \<Rightarrow> nat \<Rightarrow> 'a option" where
  "js_index [] i = None"
| "js_index (x # xs) 0 = Some x"
| "js_index (x # xs) (Suc i) = js_index xs i"

text \<open>A string or \<^verbatim>\<open>undefined\<close> is truthy when it is a non-empty string.\<close>

fun truthy :: "string option \<Rightarrow> bool" where
  "truthy None = False"
| "truthy (Some t) = (t \<noteq> [])"

text \<open>\<^verbatim>\<open>a || b\<close>\<close>

definition js_or :: "string option \<Rightarrow> string option \<Rightarrow> string option" where
  "js_or a b = (if truthy a then a else b)"

text \<open>\<^verbatim>\<open>req.headers.authorization?.split(" ")[1]\<close>\<close>

definition bearer_token :: "(string \<times> string) list \<Rightarrow> string option" where
  "bearer_token hs =
     (case map_of hs ''authorization'' of
        None \<Rightarrow> None
      | Some a \<Rightarrow> js_index (js_split (CHR '' '') a) 1)"

text \<open>Line 120: \<^verbatim>\<open>req.cookies.token || req.headers.authorization?.split(" ")[1]\<close>\<close>

definition extract_token ::
  "(string \<times> string) list \<Rightarrow> (string \<times> string) list \<Rightarrow> string option" where
  "extract_token cookies headers = js_or (map_of cookies ''token'') (bearer_token headers)"

definition request_token :: "request \<Rightarrow> string option io" where
  "request_token req =
     bindIO (property_of (req_cookies req)) (\<lambda>cookies.
     ret (extract_token cookies (req_headers req)))"

section \<open>The handlers\<close>

definition registerUser_try :: "env \<Rightarrow> request \<Rightarrow> response io" where
  "registerUser_try env req =
     bindIO (invoke env ValidationResult (\<lambda>s. (req_validation req, s))) (\<lambda>errors.
     if errors \<noteq> [] then ret (respond 400 (Errors errors))
     else
     bindIO (property_of (req_body req)) (\<lambda>b.
     bindIO (invoke env (UserExists (b_email b)) (userModel_exists (b_email b))) (\<lambda>doesUserExist.
     if doesUserExist then ret (respond 400 (Message ''User with this email already exists''))
     else
     bindIO (invoke env (HashPassword (b_password b))
               (\<lambda>s. (hashPassword env (b_password b), s))) (\<lambda>hashedPassword.
     bindIO (invoke env (CreateUser (b_fullname b) (b_email b) hashedPassword)
               (userService_createUser (b_fullname b) (b_email b) hashedPassword)) (\<lambda>user.
     bindIO (invoke env (GenerateAuthToken (u_id user))
               (\<lambda>s. (generateAuthToken env (now s) user, s))) (\<lambda>token.
     ret (respond 201 (TokenUser token user))))))))"

definition registerUser :: "env \<Rightarrow> request \<Rightarrow> state \<Rightarrow> response \<times> state" where
  "registerUser env req = catch500 (registerUser_try env req)"

definition loginUser_try :: "env \<Rightarrow> request \<Rightarrow> response io" where
  "loginUser_try env req =
     bindIO (invoke env ValidationResult (\<lambda>s. (req_validation req, s))) (\<lambda>errors.
     if errors \<noteq> [] then ret (respond 400 (Errors errors))
     else
     bindIO (property_of (req_body req)) (\<lambda>b.
     bindIO (invoke env (FindOneSelectPassword (b_email b))
               (userModel_findOne_select_password (b_email b))) (\<lambda>found.
     case found of
       None \<Rightarrow> ret (respond 401 (Message ''Invalid email''))
     | Some user \<Rightarrow>
     bindIO (invoke env (ComparePassword (u_id user) (b_password b))
               (\<lambda>s. (comparePassword env user (b_password b), s))) (\<lambda>isMatch.
     if \<not> isMatch then ret (respond 401 (Message ''Invalid password''))
     else
     bindIO (invoke env (GenerateAuthToken (u_id user))
               (\<lambda>s. (generateAuthToken env (now s) user, s))) (\<lambda>token.
     bindIO (invoke env (BlacklistExists token)
               (blacklistedTokenModel_exists token)) (\<lambda>isBlacklisted.
     if isBlacklisted
     then ret (respond 401 (Message ''Token is blacklisted, please login again''))
     else ret (respond 200 (TokenUser token user))))))))"

definition loginUser :: "env \<Rightarrow> request \<Rightarrow> state \<Rightarrow> response \<times> state" where
  "loginUser env req = catch500 (loginUser_try env req)"

definition getUserProfile_try :: "env \<Rightarrow> request \<Rightarrow> response io" where
  "getUserProfile_try env req =
     bindIO (property_of (req_user req)) (\<lambda>ru.
     bindIO (invoke env (FindById (u_id ru)) (userModel_findById (u_id ru))) (\<lambda>found.
     case found of
       None \<Rightarrow> ret (respond 404 (Message ''User not found''))
     | Some user \<Rightarrow> ret (respond 200 (UserOnly user))))"

definition getUserProfile :: "env \<Rightarrow> request \<Rightarrow> state \<Rightarrow> response \<times> state" where
  "getUserProfile env req = catch500 (getUserProfile_try env req)"

definition logoutUser_try :: "env \<Rightarrow> request \<Rightarrow> response io" where
  "logoutUser_try env req =
     bindIO (request_token req) (\<lambda>token.
     case token of
       None \<Rightarrow> ret (respond 401 (Message ''Unauthorised''))
     | Some t \<Rightarrow>
     if t = [] then ret (respond 401 (Message ''Unauthorised''))
     else
     bindIO (invoke env (BlacklistCreate t) (blacklistedTokenModel_create t)) (\<lambda>_.
     ret ((respond 200 (Message ''User logged out successfully''))
            \<lparr>cleared := [''token'']\<rparr>)))"

definition logoutUser :: "env \<Rightarrow> request \<Rightarrow> state \<Rightarrow> response \<times> state" where
  "logoutUser env req = catch500 (logoutUser_try env req)"

text \<open>No outgoing call throws.\<close>

definition no_faults :: "env \<Rightarrow> bool" where
  "no_faults env = (\<forall>c. \<not> throws env c)"

text \<open>The calls a handler made: what it appended to the log.\<close>

definition new_calls :: "state \<Rightarrow> state \<Rightarrow> call list" where
  "new_calls s s' = drop (length (calls s)) (calls s')"

section \<open>Concrete data for the examples\<close>

definition alice :: user_record where
  "alice = \<lparr>r_id = 1, r_fullname = ''Alice'', r_email = ''a@x.io'', r_password = ''h:pw1''\<rparr>"

definition env0 :: env where
  "env0 = \<lparr>throws = (\<lambda>c. False),
           hashPassword = (\<lambda>p. ''h:'' @ p),
           comparePassword = (\<lambda>u p. u_password u = Some (''h:'' @ p)),
           generateAuthToken = (\<lambda>t u. ''jwt:'' @ u_email u)\<rparr>"

text \<open>The same primitives, with every call to a model or a service throwing.\<close>

definition env_down :: env where
  "env_down = env0\<lparr>throws := (\<lambda>c. c \<noteq> ValidationResult)\<rparr>"

definition state0 :: state where
  "state0 = \<lparr>users = [alice], blacklist = [\<lparr>bt_token = ''old'', bt_createdAt = 1\<rparr>],
             now = 2, calls = []\<rparr>"

text \<open>The same store after Alice's token of this moment has been put on the blacklist.\<close>

definition state_relogin :: state where
  "state_relogin = state0\<lparr>blacklist := [\<lparr>bt_token = ''jwt:a@x.io'', bt_createdAt = 1\<rparr>]\<rparr>"

definition req0 :: request where
  "req0 = \<lparr>req_validation = [], req_body = None, req_cookies = Some [],
           req_headers = [], req_user = None\<rparr>"

definition req_alice :: request where
  "req_alice = req0\<lparr>req_body :=
     Some \<lparr>b_fullname = ''Alice'', b_email = ''a@x.io'', b_password = ''pw1''\<rparr>\<rparr>"

definition req_alice_wrong :: request where
  "req_alice_wrong = req0\<lparr>req_body :=
     Some \<lparr>b_fullname = ''Alice'', b_email = ''a@x.io'', b_password = ''guess''\<rparr>\<rparr>"

definition req_bob :: request where
  "req_bob = req0\<lparr>req_body :=
     Some \<lparr>b_fullname = ''Bob'', b_email = ''b@x.io'', b_password = ''pw2''\<rparr>\<rparr>"

definition req_profile :: "nat \<Rightarrow> request" where
  "req_profile i = req0\<lparr>req_user :=
     Some \<lparr>u_id = i, u_fullname = ''Alice'', u_email = ''a@x.io'', u_password = None\<rparr>\<rparr>"

definition req_cookie :: request where
  "req_cookie = req0\<lparr>req_cookies := Some [(''token'', ''abc'')],
                     req_headers := [(''authorization'', ''Bearer xyz'')]\<rparr>"

definition req_bearer :: request where
  "req_bearer = req0\<lparr>req_headers := [(''authorization'', ''Bearer xyz'')]\<rparr>"

definition req_empty_cookie :: request where
  "req_empty_cookie = req0\<lparr>req_cookies := Some [(''token'', [])],
                           req_headers := [(''authorization'', ''Bearer xyz'')]\<rparr>"

definition req_all :: request where
  "req_all = \<lparr>req_validation = [],
              req_body = Some \<lparr>b_fullname = ''Alice'', b_email = ''a@x.io'', b_password = ''pw1''\<rparr>,
              req_cookies = Some [(''token'', ''abc'')],
              req_headers = [],
              req_user = Some \<lparr>u_id = 1, u_fullname = ''Alice'', u_email = ''a@x.io'',
                               u_password = None\<rparr>\<rparr>"

lemmas example_defs =
  alice_def env0_def env_down_def state0_def req0_def req_alice_def req_alice_wrong_def
  req_bob_def req_profile_def req_cookie_def req_bearer_def req_empty_cookie_def req_all_def

section \<open>Unfolding the handlers\<close>

lemmas io_defs =
  ret_def throw_def bindIO_def invoke_def property_of_def catch500_def respond_def
  no_faults_def new_calls_def Let_def

lemmas db_defs =
  userModel_exists_def userModel_findOne_select_password_def userModel_findById_def
  userService_createUser_def blacklistedTokenModel_exists_def
  blacklistedTokenModel_create_def with_password_def without_password_def fresh_id_def

lemmas handler_defs =
  registerUser_def registerUser_try_def loginUser_def loginUser_try_def
  getUserProfile_def getUserProfile_try_def logoutUser_def logoutUser_try_def

lemmas token_defs = request_token_def extract_token_def js_or_def bearer_token_def

lemma u_id_with_password: "u_id (with_password r) = r_id r"
  by (simp add: with_password_def)

lemma find_in_set: "find P xs = Some x \<Longrightarrow> x \<in> set xs"
  by (auto simp: find_Some_iff)

lemma js_split_no_separator: "d \<notin> set a \<Longrightarrow> js_split d a = [a]"
  by (induction a) auto

lemma js_split_at_separator: "d \<notin> set a \<Longrightarrow> js_split d (a @ d # b) = a # js_split d b"
  by (induction a) auto

section \<open>Registration\<close>

text \<open>
  The theorems on the ordinary paths of the handlers assume that no outgoing call throws
  (\<open>no_faults\<close>) and that the part of the request the handler reads is defined.  What
  happens otherwise is the subject of C8.
\<close>

text \<open>
  C1.  A registration request whose email is already in the user store is answered with
  status 400, and no user record is created: the user store is unchanged, and the only
  calls made are the validation and (when the validation passed) the existence check, so
  neither \<^verbatim>\<open>hashPassword\<close> nor \<^verbatim>\<open>createUser\<close> is invoked.  The body is the message
  "User with this email already exists" when the request passed validation, and the list
  of validation errors otherwise.  (No outgoing call throws; that case is C8.)
\<close>

theorem registerUser_existing_email:
  assumes "no_faults env" and "req_body req = Some b"
    and "\<exists>r\<in>set (users s). r_email r = b_email b"
  shows "status (fst (registerUser env req s)) = 400 \<and>
         json (fst (registerUser env req s)) =
           (if req_validation req = [] then Message ''User with this email already exists''
            else Errors (req_validation req)) \<and>
         users (snd (registerUser env req s)) = users s \<and>
         calls (snd (registerUser env req s)) =
           calls s @ (if req_validation req = [] then [ValidationResult, UserExists (b_email b)]
                      else [ValidationResult]) \<and>
         (\<forall>c\<in>set (new_calls s (snd (registerUser env req s))).
            (\<forall>p. c \<noteq> HashPassword p) \<and> (\<forall>f e p. c \<noteq> CreateUser f e p))"
  using assms
  by (auto simp: registerUser_def registerUser_try_def io_defs db_defs list_ex_iff
      split: option.splits prod.splits sum.splits if_splits)

text \<open>
  C2.  A registration request that passes validation and whose email is not registered
  yet: the password is hashed, the user is persisted with the hashed password, and the
  answer is status 201 with a token generated for the new user and the user object, in
  which no password field is present.
\<close>

theorem registerUser_created:
  assumes "no_faults env" and "req_validation req = []" and "req_body req = Some b"
    and "\<not> (\<exists>r\<in>set (users s). r_email r = b_email b)"
  shows "\<exists>user.
         fst (registerUser env req s) =
           respond 201 (TokenUser (generateAuthToken env (now s) user) user) \<and>
         u_password user = None \<and> u_email user = b_email b \<and> u_fullname user = b_fullname b \<and>
         users (snd (registerUser env req s)) =
           users s @ [\<lparr>r_id = u_id user, r_fullname = b_fullname b, r_email = b_email b,
                       r_password = hashPassword env (b_password b)\<rparr>] \<and>
         calls (snd (registerUser env req s)) =
           calls s @ [ValidationResult, UserExists (b_email b), HashPassword (b_password b),
                      CreateUser (b_fullname b) (b_email b) (hashPassword env (b_password b)),
                      GenerateAuthToken (u_id user)]"
  using assms
  by (auto simp: registerUser_def registerUser_try_def io_defs db_defs list_ex_iff
      split: option.splits prod.splits sum.splits if_splits)

section \<open>Login\<close>

text \<open>
  C3.  A login request that passes validation is answered with status 401 when no user
  has the given email, and with status 401 when a user has it but the supplied password
  does not match.  In both cases the calls made stop before \<^verbatim>\<open>generateAuthToken\<close>: no
  token is generated, and the answer is not a 200.
\<close>

theorem loginUser_rejects:
  assumes "no_faults env" and "req_validation req = []" and "req_body req = Some b"
  shows "(find (\<lambda>r. r_email r = b_email b) (users s) = None \<longrightarrow>
            fst (loginUser env req s) = respond 401 (Message ''Invalid email'') \<and>
            calls (snd (loginUser env req s)) =
              calls s @ [ValidationResult, FindOneSelectPassword (b_email b)]) \<and>
         (\<forall>r. find (\<lambda>r. r_email r = b_email b) (users s) = Some r \<and>
              \<not> comparePassword env (with_password r) (b_password b) \<longrightarrow>
            fst (loginUser env req s) = respond 401 (Message ''Invalid password'') \<and>
            calls (snd (loginUser env req s)) =
              calls s @ [ValidationResult, FindOneSelectPassword (b_email b),
                         ComparePassword (r_id r) (b_password b)])"
  using assms
  by (auto simp: loginUser_def loginUser_try_def io_defs db_defs
      split: option.splits prod.splits sum.splits if_splits)

text \<open>
  C4.  Nothing the client sent as a token is looked at by \<^verbatim>\<open>loginUser\<close>: replacing
  the cookies and the headers of the request by any others leaves the answer and the
  final state unchanged, and whenever the handler asks the blacklist about a token, it is
  the token just generated for the user it found.  On a login with valid credentials
  the token is generated first and the blacklist is asked about exactly that token next:
  these are the last two calls.  The answer depends on that membership: it is 401 "Token
  is blacklisted, please login again" when the token just generated is in the blacklist,
  and 200 with the token and the user when it is not; the blacklist itself is only read.
\<close>

theorem loginUser_checks_fresh_token:
  "loginUser env (req\<lparr>req_cookies := ck, req_headers := hs\<rparr>) s = loginUser env req s \<and>
   (\<forall>t. BlacklistExists t \<in> set (new_calls s (snd (loginUser env req s))) \<longrightarrow>
      (\<exists>b r. req_body req = Some b \<and>
             find (\<lambda>r. r_email r = b_email b) (users s) = Some r \<and>
             t = generateAuthToken env (now s) (with_password r))) \<and>
   (no_faults env \<and> req_validation req = [] \<and> req_body req = Some b \<and>
    find (\<lambda>r. r_email r = b_email b) (users s) = Some r \<and>
    comparePassword env (with_password r) (b_password b) \<longrightarrow>
      calls (snd (loginUser env req s)) =
        calls s @ [ValidationResult, FindOneSelectPassword (b_email b),
                   ComparePassword (r_id r) (b_password b), GenerateAuthToken (r_id r),
                   BlacklistExists (generateAuthToken env (now s) (with_password r))] \<and>
      fst (loginUser env req s) =
        (if generateAuthToken env (now s) (with_password r) \<in> bt_token ` set (blacklist s)
         then respond 401 (Message ''Token is blacklisted, please login again'')
         else respond 200 (TokenUser (generateAuthToken env (now s) (with_password r))
                             (with_password r))) \<and>
      blacklist (snd (loginUser env req s)) = blacklist s)"
proof (intro conjI)
  show "loginUser env (req\<lparr>req_cookies := ck, req_headers := hs\<rparr>) s = loginUser env req s"
    by (auto simp: loginUser_def loginUser_try_def io_defs db_defs
        split: option.splits prod.splits sum.splits if_splits)
  show "\<forall>t. BlacklistExists t \<in> set (new_calls s (snd (loginUser env req s))) \<longrightarrow>
      (\<exists>b r. req_body req = Some b \<and>
             find (\<lambda>r. r_email r = b_email b) (users s) = Some r \<and>
             t = generateAuthToken env (now s) (with_password r))"
    by (auto simp: loginUser_def loginUser_try_def io_defs
        userModel_findOne_select_password_def blacklistedTokenModel_exists_def
        split: option.splits prod.splits sum.splits if_splits)
  show "no_faults env \<and> req_validation req = [] \<and> req_body req = Some b \<and>
    find (\<lambda>r. r_email r = b_email b) (users s) = Some r \<and>
    comparePassword env (with_password r) (b_password b) \<longrightarrow>
      calls (snd (loginUser env req s)) =
        calls s @ [ValidationResult, FindOneSelectPassword (b_email b),
                   ComparePassword (r_id r) (b_password b), GenerateAuthToken (r_id r),
                   BlacklistExists (generateAuthToken env (now s) (with_password r))] \<and>
      fst (loginUser env req s) =
        (if generateAuthToken env (now s) (with_password r) \<in> bt_token ` set (blacklist s)
         then respond 401 (Message ''Token is blacklisted, please login again'')
         else respond 200 (TokenUser (generateAuthToken env (now s) (with_password r))
                             (with_password r))) \<and>
      blacklist (snd (loginUser env req s)) = blacklist s"
    by (auto simp: loginUser_def loginUser_try_def io_defs
        userModel_findOne_select_password_def blacklistedTokenModel_exists_def
        list_ex_iff image_iff u_id_with_password
        split: option.splits prod.splits sum.splits if_splits)
qed

text \<open>
  C5.  Suppose the token generated now for any stored user is not in the blacklist.
  Then no login request is answered with "Token is blacklisted, please login again", and
  a login with valid credentials is answered with status 200, the token and the user.
\<close>

theorem loginUser_fresh_token_ok:
  assumes "\<forall>r\<in>set (users s).
             generateAuthToken env (now s) (with_password r) \<notin> bt_token ` set (blacklist s)"
  shows "json (fst (loginUser env req s)) \<noteq> Message ''Token is blacklisted, please login again'' \<and>
         (no_faults env \<and> req_validation req = [] \<and> req_body req = Some b \<and>
          find (\<lambda>r. r_email r = b_email b) (users s) = Some r \<and>
          comparePassword env (with_password r) (b_password b) \<longrightarrow>
          fst (loginUser env req s) =
            respond 200 (TokenUser (generateAuthToken env (now s) (with_password r))
                           (with_password r)))"
proof -
  have fresh: "list_ex (\<lambda>b. bt_token b = generateAuthToken env (now s) (with_password r'))
                 (blacklist s) = False"
    if "find (\<lambda>r. r_email r = e) (users s) = Some r'" for e r'
    using assms find_in_set [OF that] by (force simp: list_ex_iff)
  show ?thesis
    by (auto simp: loginUser_def loginUser_try_def io_defs
        userModel_findOne_select_password_def blacklistedTokenModel_exists_def fresh
        split: option.splits prod.splits sum.splits if_splits)
qed

text \<open>
  C10.  Whenever a login is answered with status 200, the user object of the body is the
  document that was fetched with the password field included: its password field holds
  the hashed password stored for that user.
\<close>

theorem loginUser_exposes_hash:
  assumes "status (fst (loginUser env req s)) = 200"
  shows "\<exists>b r. req_body req = Some b \<and>
           find (\<lambda>r. r_email r = b_email b) (users s) = Some r \<and>
           json (fst (loginUser env req s)) =
             TokenUser (generateAuthToken env (now s) (with_password r)) (with_password r) \<and>
           u_password (with_password r) = Some (r_password r)"
  using assms
  by (auto simp: loginUser_def loginUser_try_def io_defs db_defs
      split: option.splits prod.splits sum.splits if_splits)

section \<open>Profile\<close>

text \<open>
  C7.  A profile request is answered with status 404 when no user in the store has the
  identifier of the authenticated user, and with status 200 and that user otherwise.
  Whatever happens, the status is 200, 404 or 500.
\<close>

theorem getUserProfile_404_or_200:
  "status (fst (getUserProfile env req s)) \<in> {200, 404, 500} \<and>
   (no_faults env \<and> req_user req = Some ru \<longrightarrow>
      (find (\<lambda>r. r_id r = u_id ru) (users s) = None \<longrightarrow>
         fst (getUserProfile env req s) = respond 404 (Message ''User not found'')) \<and>
      (\<forall>r. find (\<lambda>r. r_id r = u_id ru) (users s) = Some r \<longrightarrow>
         fst (getUserProfile env req s) = respond 200 (UserOnly (without_password r))) \<and>
      users (snd (getUserProfile env req s)) = users s)"
  by (auto simp: getUserProfile_def getUserProfile_try_def io_defs db_defs
      split: option.splits prod.splits sum.splits if_splits)

section \<open>Logout\<close>

text \<open>
  C6.  A logout request, with \<^verbatim>\<open>req.cookies\<close> set by the cookie middleware and no
  throwing call.
  \<^item> A non-empty \<^verbatim>\<open>token\<close> cookie \<open>c\<close>: \<open>c\<close> is appended to the blacklist, the \<^verbatim>\<open>token\<close>
    cookie is cleared and the answer is status 200.
  \<^item> No \<^verbatim>\<open>token\<close> cookie (or an empty one) and an \<^verbatim>\<open>authorization\<close> header \<open>scheme h\<close>
    or \<open>scheme h rest\<close> with a non-empty \<open>h\<close>: the same with \<open>h\<close>.
  \<^item> No \<^verbatim>\<open>token\<close> cookie (or an empty one) and no \<^verbatim>\<open>authorization\<close> header (or one
    without a space): status 401, and the blacklist is unchanged.
  \<^item> In general, with the value that line 120 computes: status 401 and an unchanged
    blacklist when it is nothing or the empty string, and otherwise that value is
    appended to the blacklist, the cookie is cleared and the answer is status 200.
  The user store is never changed.
\<close>

theorem logoutUser_401_or_200:
  assumes "no_faults env" and "req_cookies req = Some cookies"
  shows "(map_of cookies ''token'' = Some c \<and> c \<noteq> [] \<longrightarrow>
            fst (logoutUser env req s) =
              \<lparr>status = 200, json = Message ''User logged out successfully'',
               cleared = [''token'']\<rparr> \<and>
            blacklist (snd (logoutUser env req s)) =
              blacklist s @ [\<lparr>bt_token = c, bt_createdAt = now s\<rparr>]) \<and>
         ((map_of cookies ''token'' = None \<or> map_of cookies ''token'' = Some []) \<and>
          CHR '' '' \<notin> set scheme \<and> CHR '' '' \<notin> set h \<and> h \<noteq> [] \<and>
          (map_of (req_headers req) ''authorization'' = Some (scheme @ CHR '' '' # h) \<or>
           map_of (req_headers req) ''authorization'' =
             Some (scheme @ CHR '' '' # h @ CHR '' '' # rest)) \<longrightarrow>
            fst (logoutUser env req s) =
              \<lparr>status = 200, json = Message ''User logged out successfully'',
               cleared = [''token'']\<rparr> \<and>
            blacklist (snd (logoutUser env req s)) =
              blacklist s @ [\<lparr>bt_token = h, bt_createdAt = now s\<rparr>]) \<and>
         ((map_of cookies ''token'' = None \<or> map_of cookies ''token'' = Some []) \<and>
          (map_of (req_headers req) ''authorization'' = None \<or>
           map_of (req_headers req) ''authorization'' = Some scheme \<and> CHR '' '' \<notin> set scheme) \<longrightarrow>
            fst (logoutUser env req s) = respond 401 (Message ''Unauthorised'') \<and>
            blacklist (snd (logoutUser env req s)) = blacklist s) \<and>
         (\<not> truthy (extract_token cookies (req_headers req)) \<longrightarrow>
            fst (logoutUser env req s) = respond 401 (Message ''Unauthorised'') \<and>
            blacklist (snd (logoutUser env req s)) = blacklist s) \<and>
         (\<forall>t. extract_token cookies (req_headers req) = Some t \<and> t \<noteq> [] \<longrightarrow>
            fst (logoutUser env req s) =
              \<lparr>status = 200, json = Message ''User logged out successfully'',
               cleared = [''token'']\<rparr> \<and>
            blacklist (snd (logoutUser env req s)) =
              blacklist s @ [\<lparr>bt_token = t, bt_createdAt = now s\<rparr>]) \<and>
         users (snd (logoutUser env req s)) = users s"
proof -
  have run: "logoutUser env req s =
      (case extract_token cookies (req_headers req) of
         None \<Rightarrow> (respond 401 (Message ''Unauthorised''), s)
       | Some t \<Rightarrow>
           if t = [] then (respond 401 (Message ''Unauthorised''), s)
           else (\<lparr>status = 200, json = Message ''User logged out successfully'',
                  cleared = [''token'']\<rparr>,
                 s\<lparr>calls := calls s @ [BlacklistCreate t],
                   blacklist := blacklist s @ [\<lparr>bt_token = t, bt_createdAt = now s\<rparr>]\<rparr>))"
    using assms
    by (auto simp: logoutUser_def logoutUser_try_def request_token_def io_defs
        blacklistedTokenModel_create_def split: option.splits)
  have cookie: "extract_token cookies (req_headers req) = Some c"
    if "map_of cookies ''token'' = Some c" "c \<noteq> []"
    using that by (simp add: extract_token_def js_or_def)
  have fallback: "extract_token cookies (req_headers req) = bearer_token (req_headers req)"
    if "map_of cookies ''token'' = None \<or> map_of cookies ''token'' = Some []"
    using that by (auto simp: extract_token_def js_or_def)
  have bearer1: "bearer_token (req_headers req) = Some h"
    if "CHR '' '' \<notin> set scheme" "CHR '' '' \<notin> set h"
      "map_of (req_headers req) ''authorization'' = Some (scheme @ CHR '' '' # h) \<or>
       map_of (req_headers req) ''authorization'' =
         Some (scheme @ CHR '' '' # h @ CHR '' '' # rest)"
    using that
    by (auto simp: bearer_token_def js_split_no_separator js_split_at_separator)
  have bearer0: "bearer_token (req_headers req) = None"
    if "map_of (req_headers req) ''authorization'' = None \<or>
        map_of (req_headers req) ''authorization'' = Some scheme \<and> CHR '' '' \<notin> set scheme"
    using that by (auto simp: bearer_token_def js_split_no_separator)
  show ?thesis
    unfolding run
    by (auto simp: respond_def cookie fallback bearer1 bearer0 split: option.splits)
qed

text \<open>
  C9.  Line 120 takes the token from the \<^verbatim>\<open>token\<close> cookie when that cookie is
  there with a non-empty value, whatever the headers are.  When the cookie is missing or
  empty, the token is the second piece of the \<^verbatim>\<open>authorization\<close> header split at single
  space characters: nothing without the header or without a space in it, and \<open>t\<close> for a
  header \<open>scheme t\<close> or \<open>scheme t rest\<close>.
\<close>

theorem request_token_source:
  assumes "req_cookies req = Some cookies"
  shows "(map_of cookies ''token'' = Some c \<and> c \<noteq> [] \<longrightarrow>
            request_token req s = (Inr (Some c), s)) \<and>
         (map_of cookies ''token'' = None \<or> map_of cookies ''token'' = Some [] \<longrightarrow>
            request_token req s = (Inr (bearer_token (req_headers req)), s)) \<and>
         (map_of (req_headers req) ''authorization'' = None \<longrightarrow>
            bearer_token (req_headers req) = None) \<and>
         (CHR '' '' \<notin> set scheme \<and> CHR '' '' \<notin> set t \<and>
          (map_of (req_headers req) ''authorization'' = Some (scheme @ CHR '' '' # t) \<or>
           map_of (req_headers req) ''authorization'' = Some (scheme @ CHR '' '' # t @ CHR '' '' # rest))
            \<longrightarrow> bearer_token (req_headers req) = Some t) \<and>
         (map_of (req_headers req) ''authorization'' = Some scheme \<and> CHR '' '' \<notin> set scheme \<longrightarrow>
            bearer_token (req_headers req) = None)"
  using assms
  by (auto simp: token_defs io_defs js_split_no_separator js_split_at_separator)

text \<open>
  The cookie does not win in every request that carries both: with an empty \<^verbatim>\<open>token\<close>
  cookie and a bearer header, the token of the header is the one put on the blacklist.
  And the header is split at single spaces, not at runs of white space: with two spaces
  after the scheme the second piece is the empty string.
\<close>

theorem logoutUser_empty_cookie_counterexample:
  "req_cookies req_empty_cookie = Some [(''token'', [])] \<and>
   req_headers req_empty_cookie = [(''authorization'', ''Bearer xyz'')] \<and>
   fst (request_token req_empty_cookie state0) = Inr (Some ''xyz'') \<and>
   blacklist (snd (logoutUser env0 req_empty_cookie state0)) =
     [\<lparr>bt_token = ''old'', bt_createdAt = 1\<rparr>, \<lparr>bt_token = ''xyz'', bt_createdAt = 2\<rparr>] \<and>
   bearer_token [(''authorization'', ''Bearer  xyz'')] = Some []"
  by (simp add: example_defs handler_defs token_defs io_defs db_defs)

section \<open>The catch-all\<close>

text \<open>
  C8.  In each of the four handlers: if the body of the \<^verbatim>\<open>try\<close> block throws, or if any
  of the calls the handler made throws, the answer is status 500 with the message
  "Internal server error".  The handlers are total functions into responses: nothing
  else can come out of them.
\<close>

theorem handlers_catch_all:
  "(isl (fst (registerUser_try env req s)) \<or>
      (\<exists>c\<in>set (new_calls s (snd (registerUser env req s))). throws env c) \<longrightarrow>
      fst (registerUser env req s) = respond 500 (Message ''Internal server error'')) \<and>
   (isl (fst (loginUser_try env req s)) \<or>
      (\<exists>c\<in>set (new_calls s (snd (loginUser env req s))). throws env c) \<longrightarrow>
      fst (loginUser env req s) = respond 500 (Message ''Internal server error'')) \<and>
   (isl (fst (getUserProfile_try env req s)) \<or>
      (\<exists>c\<in>set (new_calls s (snd (getUserProfile env req s))). throws env c) \<longrightarrow>
      fst (getUserProfile env req s) = respond 500 (Message ''Internal server error'')) \<and>
   (isl (fst (logoutUser_try env req s)) \<or>
      (\<exists>c\<in>set (new_calls s (snd (logoutUser env req s))). throws env c) \<longrightarrow>
      fst (logoutUser env req s) = respond 500 (Message ''Internal server error''))"
proof (intro conjI)
  show "isl (fst (registerUser_try env req s)) \<or>
      (\<exists>c\<in>set (new_calls s (snd (registerUser env req s))). throws env c) \<longrightarrow>
      fst (registerUser env req s) = respond 500 (Message ''Internal server error'')"
    by (auto simp: registerUser_def registerUser_try_def io_defs db_defs
        split: option.splits prod.splits sum.splits if_splits)
  show "isl (fst (loginUser_try env req s)) \<or>
      (\<exists>c\<in>set (new_calls s (snd (loginUser env req s))). throws env c) \<longrightarrow>
      fst (loginUser env req s) = respond 500 (Message ''Internal server error'')"
    by (auto simp: loginUser_def loginUser_try_def io_defs db_defs
        split: option.splits prod.splits sum.splits if_splits)
  show "isl (fst (getUserProfile_try env req s)) \<or>
      (\<exists>c\<in>set (new_calls s (snd (getUserProfile env req s))). throws env c) \<longrightarrow>
      fst (getUserProfile env req s) = respond 500 (Message ''Internal server error'')"
    by (auto simp: getUserProfile_def getUserProfile_try_def io_defs db_defs
        split: option.splits prod.splits sum.splits if_splits)
  show "isl (fst (logoutUser_try env req s)) \<or>
      (\<exists>c\<in>set (new_calls s (snd (logoutUser env req s))). throws env c) \<longrightarrow>
      fst (logoutUser env req s) = respond 500 (Message ''Internal server error'')"
    by (auto simp: logoutUser_def logoutUser_try_def request_token_def io_defs db_defs
        split: option.splits prod.splits sum.splits if_splits)
qed

section \<open>The theorems on the concrete data\<close>

theorem registerUser_existing_email_witness:
  "no_faults env0 \<and>
   req_body req_alice =
     Some \<lparr>b_fullname = ''Alice'', b_email = ''a@x.io'', b_password = ''pw1''\<rparr> \<and>
   (\<exists>r\<in>set (users state0). r_email r = ''a@x.io'') \<and>
   status (fst (registerUser env0 req_alice state0)) = 400 \<and>
   json (fst (registerUser env0 req_alice state0)) =
     Message ''User with this email already exists'' \<and>
   users (snd (registerUser env0 req_alice state0)) = [alice] \<and>
   calls (snd (registerUser env0 req_alice state0)) = [ValidationResult, UserExists ''a@x.io'']"
proof -
  have h1: "no_faults env0"
    by (simp add: no_faults_def env0_def)
  have h2: "req_body req_alice =
      Some \<lparr>b_fullname = ''Alice'', b_email = ''a@x.io'', b_password = ''pw1''\<rparr>"
    by (simp add: req_alice_def req0_def)
  have h3: "\<exists>r\<in>set (users state0).
      r_email r = b_email \<lparr>b_fullname = ''Alice'', b_email = ''a@x.io'', b_password = ''pw1''\<rparr>"
    by (simp add: state0_def alice_def)
  have v: "req_validation req_alice = []"
    by (simp add: req_alice_def req0_def)
  have u: "users state0 = [alice]" "calls state0 = []"
    by (simp_all add: state0_def)
  from registerUser_existing_email [OF h1 h2 h3] h1 h2 h3 v u
  show ?thesis by simp
qed

theorem registerUser_created_witness:
  "no_faults env0 \<and> req_validation req_bob = [] \<and>
   req_body req_bob = Some \<lparr>b_fullname = ''Bob'', b_email = ''b@x.io'', b_password = ''pw2''\<rparr> \<and>
   \<not> (\<exists>r\<in>set (users state0). r_email r = ''b@x.io'') \<and>
   (\<exists>user. fst (registerUser env0 req_bob state0) =
              respond 201 (TokenUser (generateAuthToken env0 (now state0) user) user) \<and>
            u_password user = None \<and>
            users (snd (registerUser env0 req_bob state0)) =
              [alice, \<lparr>r_id = u_id user, r_fullname = ''Bob'', r_email = ''b@x.io'',
                       r_password = ''h:pw2''\<rparr>])"
proof -
  have h1: "no_faults env0"
    by (simp add: no_faults_def env0_def)
  have h2: "req_validation req_bob = []"
    by (simp add: req_bob_def req0_def)
  have h3: "req_body req_bob =
      Some \<lparr>b_fullname = ''Bob'', b_email = ''b@x.io'', b_password = ''pw2''\<rparr>"
    by (simp add: req_bob_def req0_def)
  have h4: "\<not> (\<exists>r\<in>set (users state0).
      r_email r = b_email \<lparr>b_fullname = ''Bob'', b_email = ''b@x.io'', b_password = ''pw2''\<rparr>)"
    by (simp add: state0_def alice_def)
  have u: "users state0 = [alice]" "hashPassword env0 ''pw2'' = ''h:pw2''"
    by (simp_all add: state0_def env0_def)
  from registerUser_created [OF h1 h2 h3 h4] obtain user where
    "fst (registerUser env0 req_bob state0) =
       respond 201 (TokenUser (generateAuthToken env0 (now state0) user) user)"
    "u_password user = None"
    "users (snd (registerUser env0 req_bob state0)) =
       users state0 @ [\<lparr>r_id = u_id user, r_fullname = ''Bob'', r_email = ''b@x.io'',
                       r_password = hashPassword env0 ''pw2''\<rparr>]"
    by auto
  with h1 h2 h3 h4 u show ?thesis by auto
qed

theorem loginUser_rejects_witness:
  "no_faults env0 \<and> req_validation req_bob = [] \<and> req_validation req_alice_wrong = [] \<and>
   req_body req_bob = Some \<lparr>b_fullname = ''Bob'', b_email = ''b@x.io'', b_password = ''pw2''\<rparr> \<and>
   req_body req_alice_wrong =
     Some \<lparr>b_fullname = ''Alice'', b_email = ''a@x.io'', b_password = ''guess''\<rparr> \<and>
   find (\<lambda>r. r_email r = ''b@x.io'') (users state0) = None \<and>
   find (\<lambda>r. r_email r = ''a@x.io'') (users state0) = Some alice \<and>
   \<not> comparePassword env0 (with_password alice) ''guess'' \<and>
   fst (loginUser env0 req_bob state0) = respond 401 (Message ''Invalid email'') \<and>
   calls (snd (loginUser env0 req_bob state0)) =
     [ValidationResult, FindOneSelectPassword ''b@x.io''] \<and>
   fst (loginUser env0 req_alice_wrong state0) = respond 401 (Message ''Invalid password'') \<and>
   calls (snd (loginUser env0 req_alice_wrong state0)) =
     [ValidationResult, FindOneSelectPassword ''a@x.io'', ComparePassword 1 ''guess'']"
proof -
  have h1: "no_faults env0"
    by (simp add: no_faults_def env0_def)
  have h2: "req_validation req_bob = []" "req_validation req_alice_wrong = []"
    by (simp_all add: req_bob_def req_alice_wrong_def req0_def)
  have h3: "req_body req_bob =
      Some \<lparr>b_fullname = ''Bob'', b_email = ''b@x.io'', b_password = ''pw2''\<rparr>"
    by (simp add: req_bob_def req0_def)
  have h4: "req_body req_alice_wrong =
      Some \<lparr>b_fullname = ''Alice'', b_email = ''a@x.io'', b_password = ''guess''\<rparr>"
    by (simp add: req_alice_wrong_def req0_def)
  have f: "find (\<lambda>r. r_email r = ''b@x.io'') (users state0) = None"
    "find (\<lambda>r. r_email r = ''a@x.io'') (users state0) = Some alice"
    "\<not> comparePassword env0 (with_password alice) ''guess''"
    "calls state0 = []" "r_id alice = 1"
    by (simp_all add: state0_def alice_def env0_def with_password_def)
  from loginUser_rejects [OF h1 h2(1) h3, of state0]
    loginUser_rejects [OF h1 h2(2) h4, of state0] h1 h2 h3 h4 f
  show ?thesis by simp
qed

theorem loginUser_checks_fresh_token_witness:
  "no_faults env0 \<and> req_validation req_alice = [] \<and>
   req_body req_alice =
     Some \<lparr>b_fullname = ''Alice'', b_email = ''a@x.io'', b_password = ''pw1''\<rparr> \<and>
   find (\<lambda>r. r_email r = ''a@x.io'') (users state0) = Some alice \<and>
   find (\<lambda>r. r_email r = ''a@x.io'') (users state_relogin) = Some alice \<and>
   comparePassword env0 (with_password alice) ''pw1'' \<and>
   generateAuthToken env0 (now state0) (with_password alice) = ''jwt:a@x.io'' \<and>
   generateAuthToken env0 (now state_relogin) (with_password alice) = ''jwt:a@x.io'' \<and>
   ''jwt:a@x.io'' \<notin> bt_token ` set (blacklist state0) \<and>
   ''jwt:a@x.io'' \<in> bt_token ` set (blacklist state_relogin) \<and>
   calls (snd (loginUser env0 req_alice state0)) =
     [ValidationResult, FindOneSelectPassword ''a@x.io'', ComparePassword 1 ''pw1'',
      GenerateAuthToken 1, BlacklistExists ''jwt:a@x.io''] \<and>
   fst (loginUser env0 req_alice state0) =
     respond 200 (TokenUser ''jwt:a@x.io'' (with_password alice)) \<and>
   fst (loginUser env0 req_alice state_relogin) =
     respond 401 (Message ''Token is blacklisted, please login again'') \<and>
   loginUser env0 (req_alice\<lparr>req_cookies := Some [(''token'', ''old'')],
                              req_headers := [(''authorization'', ''Bearer old'')]\<rparr>) state0 =
     loginUser env0 req_alice state0"
proof -
  have h1: "no_faults env0"
    by (simp add: no_faults_def env0_def)
  have h2: "req_validation req_alice = []"
    by (simp add: req_alice_def req0_def)
  have h3: "req_body req_alice =
      Some \<lparr>b_fullname = ''Alice'', b_email = ''a@x.io'', b_password = ''pw1''\<rparr>"
    by (simp add: req_alice_def req0_def)
  have h4: "find (\<lambda>r. r_email r = ''a@x.io'') (users state0) = Some alice"
    "find (\<lambda>r. r_email r = ''a@x.io'') (users state_relogin) = Some alice"
    by (simp_all add: state_relogin_def state0_def alice_def)
  have h5: "comparePassword env0 (with_password alice) ''pw1''"
    by (simp add: env0_def alice_def with_password_def)
  have f: "calls state0 = []" "r_id alice = 1"
    "generateAuthToken env0 (now state0) (with_password alice) = ''jwt:a@x.io''"
    "generateAuthToken env0 (now state_relogin) (with_password alice) = ''jwt:a@x.io''"
    "''jwt:a@x.io'' \<notin> bt_token ` set (blacklist state0)"
    "''jwt:a@x.io'' \<in> bt_token ` set (blacklist state_relogin)"
    by (simp_all add: state_relogin_def state0_def alice_def env0_def with_password_def)
  from loginUser_checks_fresh_token [where env = env0 and req = req_alice
      and ck = "Some [(''token'', ''old'')]" and hs = "[(''authorization'', ''Bearer old'')]"
      and s = state0 and r = alice
      and b = "\<lparr>b_fullname = ''Alice'', b_email = ''a@x.io'', b_password = ''pw1''\<rparr>"]
    loginUser_checks_fresh_token [where env = env0 and req = req_alice
      and s = state_relogin and r = alice
      and b = "\<lparr>b_fullname = ''Alice'', b_email = ''a@x.io'', b_password = ''pw1''\<rparr>"]
    h1 h2 h3 h4 h5 f
  show ?thesis by simp
qed

theorem loginUser_fresh_token_ok_witness:
  "users state0 = [alice] \<and>
   generateAuthToken env0 (now state0) (with_password alice)
     \<notin> bt_token ` set (blacklist state0) \<and>
   no_faults env0 \<and> req_validation req_alice = [] \<and>
   req_body req_alice =
     Some \<lparr>b_fullname = ''Alice'', b_email = ''a@x.io'', b_password = ''pw1''\<rparr> \<and>
   find (\<lambda>r. r_email r = ''a@x.io'') (users state0) = Some alice \<and>
   comparePassword env0 (with_password alice) ''pw1'' \<and>
   json (fst (loginUser env0 req_alice state0)) \<noteq>
     Message ''Token is blacklisted, please login again'' \<and>
   fst (loginUser env0 req_alice state0) =
     respond 200 (TokenUser ''jwt:a@x.io'' (with_password alice))"
proof -
  have h0: "\<forall>r\<in>set (users state0).
      generateAuthToken env0 (now state0) (with_password r) \<notin> bt_token ` set (blacklist state0)"
    by (simp add: state0_def alice_def env0_def with_password_def)
  have u: "users state0 = [alice]"
    by (simp add: state0_def)
  have h1: "no_faults env0"
    by (simp add: no_faults_def env0_def)
  have h2: "req_validation req_alice = []"
    by (simp add: req_alice_def req0_def)
  have h3: "req_body req_alice =
      Some \<lparr>b_fullname = ''Alice'', b_email = ''a@x.io'', b_password = ''pw1''\<rparr>"
    by (simp add: req_alice_def req0_def)
  have h4: "find (\<lambda>r. r_email r = ''a@x.io'') (users state0) = Some alice"
    by (simp add: state0_def alice_def)
  have h5: "comparePassword env0 (with_password alice) ''pw1''"
    by (simp add: env0_def alice_def with_password_def)
  have f: "generateAuthToken env0 (now state0) (with_password alice) = ''jwt:a@x.io''"
    by (simp add: state0_def alice_def env0_def with_password_def)
  from loginUser_fresh_token_ok [OF h0, of req_alice
      "\<lparr>b_fullname = ''Alice'', b_email = ''a@x.io'', b_password = ''pw1''\<rparr>" alice]
    h0 h1 h2 h3 h4 h5 f u
  show ?thesis by (simp add: respond_def)
qed

theorem loginUser_exposes_hash_witness:
  "status (fst (loginUser env0 req_alice state0)) = 200 \<and>
   json (fst (loginUser env0 req_alice state0)) =
     TokenUser ''jwt:a@x.io''
       \<lparr>u_id = 1, u_fullname = ''Alice'', u_email = ''a@x.io'', u_password = Some ''h:pw1''\<rparr>"
proof -
  have h: "status (fst (loginUser env0 req_alice state0)) = 200"
    by (simp add: example_defs handler_defs io_defs db_defs)
  have b: "req_body req_alice =
      Some \<lparr>b_fullname = ''Alice'', b_email = ''a@x.io'', b_password = ''pw1''\<rparr>"
    by (simp add: req_alice_def req0_def)
  have f: "find (\<lambda>r. r_email r = ''a@x.io'') (users state0) = Some alice"
    by (simp add: state0_def alice_def)
  have g: "generateAuthToken env0 (now state0) (with_password alice) = ''jwt:a@x.io''"
    "with_password alice =
       \<lparr>u_id = 1, u_fullname = ''Alice'', u_email = ''a@x.io'', u_password = Some ''h:pw1''\<rparr>"
    by (simp_all add: state0_def alice_def env0_def with_password_def)
  from loginUser_exposes_hash [OF h] obtain b' r where
    "req_body req_alice = Some b'"
    "find (\<lambda>r. r_email r = b_email b') (users state0) = Some r"
    "json (fst (loginUser env0 req_alice state0)) =
       TokenUser (generateAuthToken env0 (now state0) (with_password r)) (with_password r)"
    by blast
  with b f g have "json (fst (loginUser env0 req_alice state0)) =
     TokenUser ''jwt:a@x.io''
       \<lparr>u_id = 1, u_fullname = ''Alice'', u_email = ''a@x.io'', u_password = Some ''h:pw1''\<rparr>"
    by auto
  with h show ?thesis by simp
qed

theorem getUserProfile_404_or_200_witness:
  "no_faults env0 \<and>
   req_user (req_profile 1) =
     Some \<lparr>u_id = 1, u_fullname = ''Alice'', u_email = ''a@x.io'', u_password = None\<rparr> \<and>
   req_user (req_profile 7) =
     Some \<lparr>u_id = 7, u_fullname = ''Alice'', u_email = ''a@x.io'', u_password = None\<rparr> \<and>
   find (\<lambda>r. r_id r = 1) (users state0) = Some alice \<and>
   find (\<lambda>r. r_id r = 7) (users state0) = None \<and>
   fst (getUserProfile env0 (req_profile 1) state0) =
     respond 200 (UserOnly (without_password alice)) \<and>
   fst (getUserProfile env0 (req_profile 7) state0) =
     respond 404 (Message ''User not found'')"
proof -
  have h1: "no_faults env0"
    by (simp add: no_faults_def env0_def)
  have h2: "req_user (req_profile 1) =
      Some \<lparr>u_id = 1, u_fullname = ''Alice'', u_email = ''a@x.io'', u_password = None\<rparr>"
    "req_user (req_profile 7) =
      Some \<lparr>u_id = 7, u_fullname = ''Alice'', u_email = ''a@x.io'', u_password = None\<rparr>"
    by (simp_all add: req_profile_def req0_def)
  have h3: "find (\<lambda>r. r_id r = 1) (users state0) = Some alice"
    "find (\<lambda>r. r_id r = 7) (users state0) = None"
    by (simp_all add: state0_def alice_def)
  from getUserProfile_404_or_200 [of env0 "req_profile 1" state0
      "\<lparr>u_id = 1, u_fullname = ''Alice'', u_email = ''a@x.io'', u_password = None\<rparr>"]
    getUserProfile_404_or_200 [of env0 "req_profile 7" state0
      "\<lparr>u_id = 7, u_fullname = ''Alice'', u_email = ''a@x.io'', u_password = None\<rparr>"]
    h1 h2 h3
  show ?thesis by simp
qed

theorem logoutUser_401_or_200_witness:
  "no_faults env0 \<and>
   req_cookies req_cookie = Some [(''token'', ''abc'')] \<and>
   map_of [(''token'', ''abc'')] ''token'' = Some ''abc'' \<and>
   req_cookies req_bearer = Some [] \<and>
   map_of [] ''token'' = (None :: string option) \<and>
   map_of (req_headers req_bearer) ''authorization'' = Some (''Bearer'' @ CHR '' '' # ''xyz'') \<and>
   req_cookies req0 = Some [] \<and>
   map_of (req_headers req0) ''authorization'' = None \<and>
   fst (logoutUser env0 req_cookie state0) =
     \<lparr>status = 200, json = Message ''User logged out successfully'', cleared = [''token'']\<rparr> \<and>
   blacklist (snd (logoutUser env0 req_cookie state0)) =
     blacklist state0 @ [\<lparr>bt_token = ''abc'', bt_createdAt = now state0\<rparr>] \<and>
   fst (logoutUser env0 req_bearer state0) =
     \<lparr>status = 200, json = Message ''User logged out successfully'', cleared = [''token'']\<rparr> \<and>
   blacklist (snd (logoutUser env0 req_bearer state0)) =
     blacklist state0 @ [\<lparr>bt_token = ''xyz'', bt_createdAt = now state0\<rparr>] \<and>
   fst (logoutUser env0 req0 state0) = respond 401 (Message ''Unauthorised'') \<and>
   blacklist (snd (logoutUser env0 req0 state0)) = blacklist state0"
proof -
  have h1: "no_faults env0"
    by (simp add: no_faults_def env0_def)
  have h2: "req_cookies req_cookie = Some [(''token'', ''abc'')]"
    by (simp add: req_cookie_def req0_def)
  have h3: "req_cookies req_bearer = Some []"
    by (simp add: req_bearer_def req0_def)
  have h4: "req_cookies req0 = Some []"
    by (simp add: req0_def)
  have h5: "map_of (req_headers req_bearer) ''authorization'' =
      Some (''Bearer'' @ CHR '' '' # ''xyz'')"
    by (simp add: req_bearer_def req0_def)
  have h6: "map_of (req_headers req0) ''authorization'' = None"
    by (simp add: req0_def)
  from logoutUser_401_or_200 [OF h1 h2, where c = "''abc''" and s = state0]
    logoutUser_401_or_200 [OF h1 h3, where scheme = "''Bearer''" and h = "''xyz''"
      and s = state0]
    logoutUser_401_or_200 [OF h1 h4, where s = state0]
    h1 h2 h3 h4 h5 h6
  show ?thesis by simp
qed

theorem request_token_source_witness:
  "req_cookies req_cookie = Some [(''token'', ''abc'')] \<and>
   map_of [(''token'', ''abc'')] ''token'' = Some ''abc'' \<and>
   request_token req_cookie state0 = (Inr (Some ''abc''), state0) \<and>
   req_cookies req_bearer = Some [] \<and>
   map_of (req_headers req_bearer) ''authorization'' = Some (''Bearer'' @ CHR '' '' # ''xyz'') \<and>
   request_token req_bearer state0 = (Inr (Some ''xyz''), state0)"
proof -
  have h1: "req_cookies req_cookie = Some [(''token'', ''abc'')]"
    by (simp add: req_cookie_def req0_def)
  have h2: "req_cookies req_bearer = Some []"
    by (simp add: req_bearer_def req0_def)
  have h3: "map_of (req_headers req_bearer) ''authorization'' = Some (''Bearer'' @ CHR '' '' # ''xyz'')"
    by (simp add: req_bearer_def req0_def)
  from request_token_source [OF h1, of "''abc''" state0]
    request_token_source [OF h2, of _ state0 "''Bearer''" "''xyz''"] h1 h2 h3
  show ?thesis by simp
qed

theorem handlers_catch_all_witness:
  "throws env_down (UserExists ''a@x.io'') \<and>
   UserExists ''a@x.io'' \<in> set (new_calls state0 (snd (registerUser env_down req_all state0))) \<and>
   fst (registerUser env_down req_all state0) = respond 500 (Message ''Internal server error'') \<and>
   throws env_down (FindOneSelectPassword ''a@x.io'') \<and>
   FindOneSelectPassword ''a@x.io''
     \<in> set (new_calls state0 (snd (loginUser env_down req_all state0))) \<and>
   fst (loginUser env_down req_all state0) = respond 500 (Message ''Internal server error'') \<and>
   throws env_down (FindById 1) \<and>
   FindById 1 \<in> set (new_calls state0 (snd (getUserProfile env_down req_all state0))) \<and>
   fst (getUserProfile env_down req_all state0) =
     respond 500 (Message ''Internal server error'') \<and>
   throws env_down (BlacklistCreate ''abc'') \<and>
   BlacklistCreate ''abc'' \<in> set (new_calls state0 (snd (logoutUser env_down req_all state0))) \<and>
   fst (logoutUser env_down req_all state0) = respond 500 (Message ''Internal server error'') \<and>
   isl (fst (getUserProfile_try env0 req0 state0)) \<and>
   fst (getUserProfile env0 req0 state0) = respond 500 (Message ''Internal server error'')"
proof -
  have t: "throws env_down (UserExists ''a@x.io'')"
    "throws env_down (FindOneSelectPassword ''a@x.io'')"
    "throws env_down (FindById 1)"
    "throws env_down (BlacklistCreate ''abc'')"
    by (simp_all add: env_down_def env0_def)
  have c1: "UserExists ''a@x.io''
      \<in> set (new_calls state0 (snd (registerUser env_down req_all state0)))"
    by (simp add: example_defs handler_defs io_defs)
  have c2: "FindOneSelectPassword ''a@x.io''
      \<in> set (new_calls state0 (snd (loginUser env_down req_all state0)))"
    by (simp add: example_defs handler_defs io_defs)
  have c3: "FindById 1 \<in> set (new_calls state0 (snd (getUserProfile env_down req_all state0)))"
    by (simp add: example_defs handler_defs io_defs)
  have c4: "BlacklistCreate ''abc''
      \<in> set (new_calls state0 (snd (logoutUser env_down req_all state0)))"
    by (simp add: example_defs handler_defs token_defs io_defs)
  have c5: "isl (fst (getUserProfile_try env0 req0 state0))"
    by (simp add: example_defs handler_defs io_defs)
  from handlers_catch_all [of env_down req_all state0] handlers_catch_all [of env0 req0 state0]
    t c1 c2 c3 c4 c5
  show ?thesis by blast
qed

end
